theory Spec2Isabelle
  imports Main "HOL-Library.Monad_Syntax" "HOL-Library.Sublist"
begin

section \<open>The stack of \<^verbatim>\<open>neel_stack.py\<close> as a construct tree\<close>

text \<open>
  The program is one class, \<^verbatim>\<open>NeelStack\<close>, whose initialiser declares the constructs of
  one stack, statement after statement, and four module-level statements that instantiate
  the stack in an app and synthesise it. Every statement is a call into the construct
  library. A call is modelled by what it leaves in the stack's construct tree: a node
  holding the properties the program passes, whatever else the library declares with it,
  and the checks under which the library raises, which the model writes as \<open>None\<close>. A
  Python variable bound to a construct is the construct's path in the tree. A method
  call on a construct dereferences that path: where the path holds no construct of the
  receiver's class there is no result.
\<close>

subsection \<open>Values the program passes to the library\<close>

type_synonym path = "string list"

text \<open>
  The library's enumerations; the program names the members it needs. The integration type
  the library calls \<^verbatim>\<open>HTTP\<close> is written \<open>HTTP_INTEGRATION\<close>, apart from the protocol.
\<close>

datatype SubnetType = PUBLIC | PRIVATE_WITH_EGRESS | PRIVATE_ISOLATED

datatype Protocol = HTTP | HTTPS | TCP | TLS | UDP

datatype EndpointType = EDGE | REGIONAL | PRIVATE

datatype IntegrationType = AWS | AWS_PROXY | HTTP_INTEGRATION | HTTP_PROXY | MOCK

datatype ConnectionType = INTERNET | VPC_LINK

datatype Peer = any_ipv4 | any_ipv6

datatype Port = tcp nat | udp nat

datatype Duration = seconds nat

fun to_seconds :: "Duration \<Rightarrow> nat" where
  "to_seconds (seconds n) = n"

record Environment =
  account :: string
  region :: string

record SubnetConfiguration =
  subnet_type :: SubnetType
  cidr_mask :: nat
  name :: string

record SubnetSelection =
  sel_subnet_type :: SubnetType

record IngressRule =
  rule_peer :: Peer
  rule_port :: Port
  rule_description :: string

record HealthCheck =
  hc_path :: string
  hc_port :: string
  hc_protocol :: Protocol
  hc_interval :: Duration
  hc_timeout :: Duration

text \<open>
  A late-bound attribute of a construct: its value exists only once the provisioning
  backend has created the resource. A string that embeds such attributes, as the f-string
  of the integration's \<^verbatim>\<open>uri\<close> does, is a list of fragments.
\<close>

datatype attr = DnsName path | Url path

datatype frag = Lit string | Tok attr

type_synonym tstring = "frag list"

text \<open>
  \<^verbatim>\<open>ec2.MachineImage.generic_linux\<close> takes a dict from region to image identifier. The
  image of a region is its entry in the dict; the library answers for its own test region
  with a fixed identifier.
\<close>

type_synonym MachineImage = "(string \<times> string) list"

definition generic_linux :: "(string \<times> string) list \<Rightarrow> MachineImage" where
  "generic_linux ami_map = ami_map"

definition get_image :: "MachineImage \<Rightarrow> string \<Rightarrow> string option" where
  "get_image ami r = (if r = ''test-region'' then Some ''ami-12345'' else map_of ami r)"

record IntegrationOptions =
  connection_type :: ConnectionType
  vpc_link :: path

record Integration =
  int_type :: IntegrationType
  integration_http_method :: string
  uri :: tstring
  options :: IntegrationOptions

subsection \<open>Constructs\<close>

record vpc_props =
  max_azs :: nat
  subnet_configuration :: "SubnetConfiguration list"

record security_group_props =
  sg_vpc :: path
  sg_description :: string
  allow_all_outbound :: bool
  ingress_rules :: "IngressRule list"

record instance_props =
  instance_type :: string
  machine_image :: MachineImage
  image_id :: string
  inst_vpc :: path
  inst_security_group :: path
  vpc_subnets :: SubnetSelection
  user_data :: "string list"

record nlb_props =
  nlb_vpc :: path
  internet_facing :: bool
  cross_zone_enabled :: bool

record listener_props =
  listener_lb :: path
  listener_port :: nat
  default_action :: "path list"

record target_group_props =
  tg_vpc :: path
  tg_port :: nat
  tg_targets :: "path list"
  health_check :: HealthCheck

record vpc_link_props =
  link_targets :: "path list"

record rest_api_props =
  endpoint_types :: "EndpointType list"

datatype parent = root path | under path

record resource_props =
  res_parent :: parent
  path_part :: string

record method_props =
  method_resource :: path
  http_method :: string
  method_integration :: Integration

record output_props =
  out_value :: tstring
  out_description :: "string option"

datatype construct =
    Vpc vpc_props
  | SecurityGroup security_group_props
  | Instance instance_props
  | NetworkLoadBalancer nlb_props
  | NetworkListener listener_props
  | NetworkTargetGroup target_group_props
  | VpcLink vpc_link_props
  | RestApi rest_api_props
  | Resource resource_props
  | Method method_props
  | CfnOutput output_props

text \<open>
  A stack: its id, the environment passed in \<^verbatim>\<open>kwargs\<close>, and its constructs in the order
  they are declared. An app is the list of the stacks declared in it.
\<close>

record Stack =
  stack_id :: string
  stack_env :: Environment
  tree :: "(path \<times> construct) list"

type_synonym App = "Stack list"

definition App :: App where
  "App = []"

definition letters :: string where
  "letters = ''abcdefghijklmnopqrstuvwxyzABCDEFGHIJKLMNOPQRSTUVWXYZ''"

definition digits :: string where
  "digits = ''0123456789''"

text \<open>A path separator inside an id is rewritten to two hyphens.\<close>

definition sanitize_id :: "string \<Rightarrow> string" where
  "sanitize_id s = concat (map (\<lambda>c. if c = CHR ''/'' then ''--'' else [c]) s)"

text \<open>A stack name is a letter followed by letters, digits and hyphens.\<close>

definition valid_stack_name :: "string \<Rightarrow> bool" where
  "valid_stack_name n =
     (case n of [] \<Rightarrow> False
      | c # cs \<Rightarrow> c \<in> set letters \<and> list_all (\<lambda>d. d \<in> set (letters @ digits @ ''-'')) cs)"

text \<open>
  \<^verbatim>\<open>super().__init__(scope, id, **kwargs)\<close>: the stack initialiser refuses the empty id, an
  id its scope already holds and an id that is no stack name.
\<close>

definition Stack_init :: "App \<Rightarrow> string \<Rightarrow> Environment \<Rightarrow> Stack option" where
  "Stack_init scope sid e =
     (if sid = [] then None
      else if sanitize_id sid \<in> set (map stack_id scope) then None
      else if valid_stack_name (sanitize_id sid)
        then Some \<lparr>stack_id = sanitize_id sid, stack_env = e, tree = []\<rparr>
      else None)"

definition lookup :: "Stack \<Rightarrow> path \<Rightarrow> construct option" where
  "lookup self p = map_of (tree self) p"

text \<open>
  Declaring a construct appends it to the tree and yields its path; a path that is
  already taken is refused.
\<close>

definition new :: "Stack \<Rightarrow> path \<Rightarrow> construct \<Rightarrow> (path \<times> Stack) option" where
  "new self p c =
     (if p \<in> set (map fst (tree self)) then None
      else Some (p, self\<lparr>tree := tree self @ [(p, c)]\<rparr>))"

text \<open>Mutating a declared construct in place; \<open>None\<close> where the receiver is not there.\<close>

fun modify :: "path \<Rightarrow> (construct \<Rightarrow> construct option) \<Rightarrow> (path \<times> construct) list
    \<Rightarrow> (path \<times> construct) list option" where
  "modify p f [] = None"
| "modify p f ((q, c) # t) =
     (if q = p then map_option (\<lambda>c'. (q, c') # t) (f c)
      else map_option (\<lambda>t'. (q, c) # t') (modify p f t))"

definition mutate :: "path \<Rightarrow> (construct \<Rightarrow> construct option) \<Rightarrow> Stack \<Rightarrow> Stack option" where
  "mutate p f self = map_option (\<lambda>t. self\<lparr>tree := t\<rparr>) (modify p f (tree self))"

subsection \<open>The library calls the program makes\<close>

definition ec2_Vpc :: "Stack \<Rightarrow> string \<Rightarrow> nat \<Rightarrow> SubnetConfiguration list
    \<Rightarrow> (path \<times> Stack) option" where
  "ec2_Vpc self cid azs subnets =
     new self [cid] (Vpc \<lparr>max_azs = azs, subnet_configuration = subnets\<rparr>)"

definition ec2_SecurityGroup :: "Stack \<Rightarrow> string \<Rightarrow> path \<Rightarrow> string \<Rightarrow> bool
    \<Rightarrow> (path \<times> Stack) option" where
  "ec2_SecurityGroup self cid v descr outbound =
     new self [cid] (SecurityGroup \<lparr>sg_vpc = v, sg_description = descr,
       allow_all_outbound = outbound, ingress_rules = []\<rparr>)"

text \<open>
  A rule whose peer and port the group already stores is dropped; any other rule is
  stored after the rules that are there.
\<close>

definition has_rule :: "Peer \<Rightarrow> Port \<Rightarrow> IngressRule list \<Rightarrow> bool" where
  "has_rule p prt rs = list_ex (\<lambda>r. rule_peer r = p \<and> rule_port r = prt) rs"

definition store_rule :: "Peer \<Rightarrow> Port \<Rightarrow> string \<Rightarrow> IngressRule list \<Rightarrow> IngressRule list" where
  "store_rule p prt descr rs =
     (if has_rule p prt rs then rs
      else rs @ [\<lparr>rule_peer = p, rule_port = prt, rule_description = descr\<rparr>])"

definition add_ingress_rule :: "path \<Rightarrow> Peer \<Rightarrow> Port \<Rightarrow> string \<Rightarrow> Stack \<Rightarrow> Stack option" where
  "add_ingress_rule sg p prt descr =
     mutate sg (\<lambda>c. case c of
         SecurityGroup g \<Rightarrow>
           Some (SecurityGroup (g\<lparr>ingress_rules := store_rule p prt descr (ingress_rules g)\<rparr>))
       | _ \<Rightarrow> None)"

text \<open>
  The instance resolves its machine image for the region of its stack when it is
  declared, and raises where the image has none for that region.
\<close>

definition ec2_Instance :: "Stack \<Rightarrow> string \<Rightarrow> string \<Rightarrow> MachineImage \<Rightarrow> path \<Rightarrow> path
    \<Rightarrow> SubnetSelection \<Rightarrow> (path \<times> Stack) option" where
  "ec2_Instance self cid ity ami v sg sel =
     (case get_image ami (region (stack_env self)) of
        None \<Rightarrow> None
      | Some im \<Rightarrow>
          new self [cid] (Instance \<lparr>instance_type = ity, machine_image = ami, image_id = im,
            inst_vpc = v, inst_security_group = sg, vpc_subnets = sel, user_data = []\<rparr>))"

definition user_data_add_commands :: "path \<Rightarrow> string \<Rightarrow> Stack \<Rightarrow> Stack option" where
  "user_data_add_commands inst cmd =
     mutate inst (\<lambda>c. case c of
         Instance i \<Rightarrow> Some (Instance (i\<lparr>user_data := user_data i @ [cmd]\<rparr>))
       | _ \<Rightarrow> None)"

definition elbv2_NetworkLoadBalancer :: "Stack \<Rightarrow> string \<Rightarrow> path \<Rightarrow> bool \<Rightarrow> bool
    \<Rightarrow> (path \<times> Stack) option" where
  "elbv2_NetworkLoadBalancer self cid v facing cross =
     new self [cid] (NetworkLoadBalancer \<lparr>nlb_vpc = v, internet_facing = facing,
       cross_zone_enabled = cross\<rparr>)"

definition add_listener :: "path \<Rightarrow> string \<Rightarrow> nat \<Rightarrow> Stack \<Rightarrow> (path \<times> Stack) option" where
  "add_listener lb cid prt self =
     (case lookup self lb of
        Some (NetworkLoadBalancer _) \<Rightarrow>
          new self (lb @ [cid])
            (NetworkListener \<lparr>listener_lb = lb, listener_port = prt, default_action = []\<rparr>)
      | _ \<Rightarrow> None)"

text \<open>
  \<^verbatim>\<open>add_targets\<close> declares a target group under the listener, its id the given id followed
  by \<^verbatim>\<open>Group\<close>, in the network of the listener's load balancer, and makes forwarding to
  that group the listener's default action.
\<close>

definition add_targets :: "path \<Rightarrow> string \<Rightarrow> nat \<Rightarrow> path list \<Rightarrow> HealthCheck \<Rightarrow> Stack
    \<Rightarrow> (path \<times> Stack) option" where
  "add_targets l cid prt ts hc self =
     (case lookup self l of
        Some (NetworkListener lis) \<Rightarrow>
          (case lookup self (listener_lb lis) of
             Some (NetworkLoadBalancer lb) \<Rightarrow> do {
               (g, self) \<leftarrow> new self (l @ [cid @ ''Group''])
                 (NetworkTargetGroup \<lparr>tg_vpc = nlb_vpc lb, tg_port = prt, tg_targets = ts,
                    health_check = hc\<rparr>);
               self \<leftarrow> mutate l (\<lambda>c. case c of
                   NetworkListener x \<Rightarrow> Some (NetworkListener (x\<lparr>default_action := [g]\<rparr>))
                 | _ \<Rightarrow> None) self;
               Some (g, self)
             }
           | _ \<Rightarrow> None)
      | _ \<Rightarrow> None)"

definition InstanceTarget :: "path \<Rightarrow> path" where
  "InstanceTarget inst = inst"

definition load_balancer_dns_name :: "Stack \<Rightarrow> path \<Rightarrow> frag option" where
  "load_balancer_dns_name self lb =
     (case lookup self lb of Some (NetworkLoadBalancer _) \<Rightarrow> Some (Tok (DnsName lb)) | _ \<Rightarrow> None)"

definition apigw_VpcLink :: "Stack \<Rightarrow> string \<Rightarrow> path list \<Rightarrow> (path \<times> Stack) option" where
  "apigw_VpcLink self cid ts = new self [cid] (VpcLink \<lparr>link_targets = ts\<rparr>)"

definition cdk_CfnOutput :: "Stack \<Rightarrow> path \<Rightarrow> tstring \<Rightarrow> string option
    \<Rightarrow> (path \<times> Stack) option" where
  "cdk_CfnOutput self p v descr = new self p (CfnOutput \<lparr>out_value = v, out_description = descr\<rparr>)"

text \<open>
  A REST API declares, besides itself, an output of its own: \<^verbatim>\<open>Endpoint\<close>, under the API,
  whose value is the API's URL.
\<close>

definition apigw_RestApi :: "Stack \<Rightarrow> string \<Rightarrow> EndpointType list \<Rightarrow> (path \<times> Stack) option" where
  "apigw_RestApi self cid tys = do {
     (api, self) \<leftarrow> new self [cid] (RestApi \<lparr>endpoint_types = tys\<rparr>);
     (_, self) \<leftarrow> cdk_CfnOutput self (api @ [''Endpoint'']) [Tok (Url api)] None;
     Some (api, self)
   }"

definition api_root :: "Stack \<Rightarrow> path \<Rightarrow> parent option" where
  "api_root self api = (case lookup self api of Some (RestApi _) \<Rightarrow> Some (root api) | _ \<Rightarrow> None)"

definition api_url :: "Stack \<Rightarrow> path \<Rightarrow> frag option" where
  "api_url self api = (case lookup self api of Some (RestApi _) \<Rightarrow> Some (Tok (Url api)) | _ \<Rightarrow> None)"

text \<open>The root resource of an API is the construct \<^verbatim>\<open>Default\<close> under it.\<close>

fun parent_path :: "parent \<Rightarrow> path" where
  "parent_path (root api) = api @ [''Default'']"
| "parent_path (under r) = r"

text \<open>
  A path part is made of letters, digits and \<^verbatim>\<open>:._-$\<close>; it may stand in braces, and
  inside them end with a plus sign.
\<close>

definition strip_braces :: "string \<Rightarrow> string" where
  "strip_braces part =
     (case part of
        [] \<Rightarrow> part
      | c # cs \<Rightarrow>
          if c = CHR ''{'' \<and> cs \<noteq> [] \<and> last cs = CHR ''}''
          then (let i = butlast cs in if i \<noteq> [] \<and> last i = CHR ''+'' then butlast i else i)
          else part)"

definition valid_path_part :: "string \<Rightarrow> bool" where
  "valid_path_part part =
     (strip_braces part \<noteq> []
      \<and> list_all (\<lambda>d. d \<in> set (letters @ digits @ '':._-$'')) (strip_braces part))"

definition add_resource :: "parent \<Rightarrow> string \<Rightarrow> Stack \<Rightarrow> (path \<times> Stack) option" where
  "add_resource par part self =
     (if valid_path_part part
      then new self (parent_path par @ [part]) (Resource \<lparr>res_parent = par, path_part = part\<rparr>)
      else None)"

text \<open>A method is stored in upper case and must be one the library knows.\<close>

definition upper :: "string \<Rightarrow> string" where
  "upper s = map (\<lambda>c. case map_of (zip ''abcdefghijklmnopqrstuvwxyz'' ''ABCDEFGHIJKLMNOPQRSTUVWXYZ'') c of
                        Some u \<Rightarrow> u | None \<Rightarrow> c) s"

definition ALL_METHODS :: "string list" where
  "ALL_METHODS = [''OPTIONS'', ''GET'', ''PUT'', ''POST'', ''DELETE'', ''PATCH'', ''HEAD'']"

definition add_method :: "path \<Rightarrow> string \<Rightarrow> Integration \<Rightarrow> Stack \<Rightarrow> (path \<times> Stack) option" where
  "add_method r m i self =
     (case lookup self r of
        Some (Resource _) \<Rightarrow>
          (if upper m \<in> set (''ANY'' # ALL_METHODS)
           then new self (r @ [m]) (Method \<lparr>method_resource = r, http_method = upper m,
                  method_integration = i\<rparr>)
           else None)
      | _ \<Rightarrow> None)"

subsection \<open>The initialiser of \<^verbatim>\<open>NeelStack\<close>\<close>

text \<open>The triple-quoted boot script, character for character, line breaks and indentation included.\<close>

definition nginx_install_script :: string where
  "nginx_install_script =
     ''\<newline>            # Install Nginx\<newline>            sudo apt-get update\<newline>            sudo apt-get install nginx -y\<newline>            sudo systemctl start nginx\<newline>        ''"

text \<open>
  The initialiser runs its statements in the order of the source and stops at the first
  call that raises; the stack it has built is then a child of its scope.
\<close>

definition NeelStack :: "App \<Rightarrow> string \<Rightarrow> Environment \<Rightarrow> App option" where
  "NeelStack scope sid env = do {
     self \<leftarrow> Stack_init scope sid env;
     (vpc, self) \<leftarrow> ec2_Vpc self ''MyVpc'' 1
           [\<lparr>subnet_type = PUBLIC, cidr_mask = 24, name = ''Public''\<rparr>,
            \<lparr>subnet_type = PRIVATE_WITH_EGRESS, cidr_mask = 24, name = ''Private''\<rparr>];
     let ami_id = ''ami-0ba8562d785e35387'';
     let ami = generic_linux [(''us-east-1'', ami_id)];
     (_, self) \<leftarrow> cdk_CfnOutput self [''AMI_ID''] [Lit ami_id] None;
     (security_group, self) \<leftarrow>
           ec2_SecurityGroup self ''MySecurityGroup'' vpc ''Allow HTTP inbound traffic'' True;
     self \<leftarrow> add_ingress_rule security_group any_ipv4 (tcp 80) ''Allow HTTP traffic'' self;
     (instance, self) \<leftarrow> ec2_Instance self ''MyEC2Instance1'' ''t2.micro'' ami vpc security_group
           \<lparr>sel_subnet_type = PRIVATE_WITH_EGRESS\<rparr>;
     self \<leftarrow> user_data_add_commands instance nginx_install_script self;
     (nlb, self) \<leftarrow> elbv2_NetworkLoadBalancer self ''MyNLB'' vpc False True;
     (listener_80, self) \<leftarrow> add_listener nlb ''Listener'' 80 self;
     (target_group, self) \<leftarrow> add_targets listener_80 ''TargetGroup'' 80 [InstanceTarget instance]
           \<lparr>hc_path = ''/'', hc_port = ''80'', hc_protocol = HTTP,
            hc_interval = seconds 30, hc_timeout = seconds 10\<rparr> self;
     (vpc_link, self) \<leftarrow> apigw_VpcLink self ''MyVpcLink'' [nlb];
     (api, self) \<leftarrow> apigw_RestApi self ''MyRestApi'' [REGIONAL];
     api_root \<leftarrow> api_root self api;
     (resource, self) \<leftarrow> add_resource api_root ''mynlb'' self;
     dns_name \<leftarrow> load_balancer_dns_name self nlb;
     let integration = \<lparr>int_type = HTTP_PROXY, integration_http_method = ''ANY'',
           uri = [Lit ''http://'', dns_name],
           options = \<lparr>connection_type = VPC_LINK, vpc_link = vpc_link\<rparr>\<rparr>;
     (_, self) \<leftarrow> add_method resource ''ANY'' integration self;
     url \<leftarrow> api_url self api;
     (_, self) \<leftarrow> cdk_CfnOutput self [''ApiEndpoint''] [url] (Some ''API Gateway Endpoint'');
     Some (scope @ [self])
   }"

subsection \<open>The module-level statements\<close>

text \<open>
  \<^verbatim>\<open>app.synth()\<close> validates the constructs of every stack and hands each stack to the
  provisioning backend as a template: the declared constructs in declaration order, the
  outputs apart from the resources, the late-bound attributes still unresolved. The
  validation refuses a target group whose health check times out later than its interval
  and a VPC link without targets.
\<close>

record Template =
  template_stack :: string
  template_env :: Environment
  resources :: "(path \<times> construct) list"
  outputs :: "(path \<times> tstring) list"

fun output_of :: "path \<times> construct \<Rightarrow> (path \<times> tstring) option" where
  "output_of (p, CfnOutput ou) = Some (p, out_value ou)"
| "output_of (p, c) = None"

fun validate :: "construct \<Rightarrow> bool" where
  "validate (NetworkTargetGroup g) =
     (to_seconds (hc_timeout (health_check g)) \<le> to_seconds (hc_interval (health_check g)))"
| "validate (VpcLink k) = (link_targets k \<noteq> [])"
| "validate c = True"

definition synth_stack :: "Stack \<Rightarrow> Template" where
  "synth_stack s = \<lparr>template_stack = stack_id s, template_env = stack_env s,
     resources = filter (\<lambda>pc. output_of pc = None) (tree s),
     outputs = List.map_filter output_of (tree s)\<rparr>"

definition synth :: "App \<Rightarrow> Template list option" where
  "synth app =
     (if list_all (\<lambda>s. list_all (\<lambda>pc. validate (snd pc)) (tree s)) app
      then Some (map synth_stack app) else None)"

definition main :: "Template list option" where
  "main = do {
     let app = App;
     let env = \<lparr>account = ''851725255821'', region = ''us-east-1''\<rparr>;
     app \<leftarrow> NeelStack app ''NeelStack'' env;
     synth app
   }"

definition n_outputs :: "Template \<Rightarrow> nat" where
  "n_outputs t = length (outputs t)"

subsection \<open>Reading a construct tree\<close>

text \<open>The constructs of one class, with their paths, in declaration order.\<close>

definition vpcs :: "(path \<times> construct) list \<Rightarrow> (path \<times> vpc_props) list" where
  "vpcs t = List.map_filter (\<lambda>(p, c). case c of Vpc x \<Rightarrow> Some (p, x) | _ \<Rightarrow> None) t"

definition security_groups :: "(path \<times> construct) list \<Rightarrow> (path \<times> security_group_props) list" where
  "security_groups t =
     List.map_filter (\<lambda>(p, c). case c of SecurityGroup x \<Rightarrow> Some (p, x) | _ \<Rightarrow> None) t"

definition instances :: "(path \<times> construct) list \<Rightarrow> (path \<times> instance_props) list" where
  "instances t = List.map_filter (\<lambda>(p, c). case c of Instance x \<Rightarrow> Some (p, x) | _ \<Rightarrow> None) t"

definition load_balancers :: "(path \<times> construct) list \<Rightarrow> (path \<times> nlb_props) list" where
  "load_balancers t =
     List.map_filter (\<lambda>(p, c). case c of NetworkLoadBalancer x \<Rightarrow> Some (p, x) | _ \<Rightarrow> None) t"

definition listeners :: "(path \<times> construct) list \<Rightarrow> (path \<times> listener_props) list" where
  "listeners t =
     List.map_filter (\<lambda>(p, c). case c of NetworkListener x \<Rightarrow> Some (p, x) | _ \<Rightarrow> None) t"

definition target_groups :: "(path \<times> construct) list \<Rightarrow> (path \<times> target_group_props) list" where
  "target_groups t =
     List.map_filter (\<lambda>(p, c). case c of NetworkTargetGroup x \<Rightarrow> Some (p, x) | _ \<Rightarrow> None) t"

definition vpc_links :: "(path \<times> construct) list \<Rightarrow> (path \<times> vpc_link_props) list" where
  "vpc_links t = List.map_filter (\<lambda>(p, c). case c of VpcLink x \<Rightarrow> Some (p, x) | _ \<Rightarrow> None) t"

definition rest_apis :: "(path \<times> construct) list \<Rightarrow> (path \<times> rest_api_props) list" where
  "rest_apis t = List.map_filter (\<lambda>(p, c). case c of RestApi x \<Rightarrow> Some (p, x) | _ \<Rightarrow> None) t"

definition api_resources :: "(path \<times> construct) list \<Rightarrow> (path \<times> resource_props) list" where
  "api_resources t = List.map_filter (\<lambda>(p, c). case c of Resource x \<Rightarrow> Some (p, x) | _ \<Rightarrow> None) t"

definition methods :: "(path \<times> construct) list \<Rightarrow> (path \<times> method_props) list" where
  "methods t = List.map_filter (\<lambda>(p, c). case c of Method x \<Rightarrow> Some (p, x) | _ \<Rightarrow> None) t"

text \<open>
  The references a construct holds to other constructs, each with the class the referenced
  construct must have. An embedded late-bound attribute is a reference to its owner.
\<close>

datatype kind = KVpc | KSecurityGroup | KInstance | KNetworkLoadBalancer | KNetworkListener
  | KNetworkTargetGroup | KVpcLink | KRestApi | KResource | KMethod | KCfnOutput

fun kind_of :: "construct \<Rightarrow> kind" where
  "kind_of (Vpc _) = KVpc"
| "kind_of (SecurityGroup _) = KSecurityGroup"
| "kind_of (Instance _) = KInstance"
| "kind_of (NetworkLoadBalancer _) = KNetworkLoadBalancer"
| "kind_of (NetworkListener _) = KNetworkListener"
| "kind_of (NetworkTargetGroup _) = KNetworkTargetGroup"
| "kind_of (VpcLink _) = KVpcLink"
| "kind_of (RestApi _) = KRestApi"
| "kind_of (Resource _) = KResource"
| "kind_of (Method _) = KMethod"
| "kind_of (CfnOutput _) = KCfnOutput"

fun frag_refs :: "frag \<Rightarrow> (path \<times> kind) list" where
  "frag_refs (Lit _) = []"
| "frag_refs (Tok (DnsName p)) = [(p, KNetworkLoadBalancer)]"
| "frag_refs (Tok (Url p)) = [(p, KRestApi)]"

fun parent_ref :: "parent \<Rightarrow> path \<times> kind" where
  "parent_ref (root api) = (api, KRestApi)"
| "parent_ref (under r) = (r, KResource)"

fun refs :: "construct \<Rightarrow> (path \<times> kind) list" where
  "refs (Vpc _) = []"
| "refs (SecurityGroup g) = [(sg_vpc g, KVpc)]"
| "refs (Instance i) = [(inst_vpc i, KVpc), (inst_security_group i, KSecurityGroup)]"
| "refs (NetworkLoadBalancer n) = [(nlb_vpc n, KVpc)]"
| "refs (NetworkListener l) =
     (listener_lb l, KNetworkLoadBalancer) # map (\<lambda>p. (p, KNetworkTargetGroup)) (default_action l)"
| "refs (NetworkTargetGroup g) = (tg_vpc g, KVpc) # map (\<lambda>p. (p, KInstance)) (tg_targets g)"
| "refs (VpcLink k) = map (\<lambda>p. (p, KNetworkLoadBalancer)) (link_targets k)"
| "refs (RestApi _) = []"
| "refs (Resource r) = [parent_ref (res_parent r)]"
| "refs (Method m) =
     (method_resource m, KResource) # (vpc_link (options (method_integration m)), KVpcLink)
       # concat (map frag_refs (uri (method_integration m)))"
| "refs (CfnOutput ou) = concat (map frag_refs (out_value ou))"

definition resolves :: "(path \<times> construct) list \<Rightarrow> path \<times> kind \<Rightarrow> bool" where
  "resolves t r = (case map_of t (fst r) of Some c \<Rightarrow> kind_of c = snd r | None \<Rightarrow> False)"

text \<open>
  A tree is resolved when every reference of every construct in it is the path of a
  construct of the expected class in it.
\<close>

definition resolved :: "(path \<times> construct) list \<Rightarrow> bool" where
  "resolved t = list_all (\<lambda>pc. list_all (resolves t) (refs (snd pc))) t"

text \<open>
  What the backend supplies: a value for some late-bound attributes. A string with embedded
  attributes has a value once all of them have one.
\<close>

fun resolve :: "(attr \<Rightarrow> string option) \<Rightarrow> tstring \<Rightarrow> string option" where
  "resolve b [] = Some []"
| "resolve b (Lit s # fs) = map_option (\<lambda>r. s @ r) (resolve b fs)"
| "resolve b (Tok a # fs) =
     (case b a of None \<Rightarrow> None | Some v \<Rightarrow> map_option (\<lambda>r. v @ r) (resolve b fs))"

section \<open>Properties of the program\<close>

lemmas lib_defs = Stack_init_def lookup_def new_def mutate_def ec2_Vpc_def ec2_SecurityGroup_def
  add_ingress_rule_def store_rule_def has_rule_def ec2_Instance_def user_data_add_commands_def
  elbv2_NetworkLoadBalancer_def add_listener_def add_targets_def InstanceTarget_def
  load_balancer_dns_name_def apigw_VpcLink_def apigw_RestApi_def api_root_def api_url_def
  add_resource_def valid_path_part_def strip_braces_def add_method_def upper_def ALL_METHODS_def
  cdk_CfnOutput_def generic_linux_def get_image_def letters_def digits_def

lemmas read_defs = vpcs_def security_groups_def instances_def load_balancers_def listeners_def
  target_groups_def vpc_links_def rest_apis_def api_resources_def methods_def
  List.map_filter_simps

text \<open>With the arguments of the module-level call the initialiser runs to its end.\<close>

lemma NeelStack_main_runs:
  "\<exists>app. NeelStack App ''NeelStack'' \<lparr>account = ''851725255821'', region = ''us-east-1''\<rparr>
      = Some app"
  by (simp add: NeelStack_def App_def lib_defs sanitize_id_def valid_stack_name_def Let_def)

text \<open>
  There the boot script reaches the instance as the one command of its user data,
  unchanged: the text between the triple quotes of the source.
\<close>

lemma boot_script_verbatim:
  "\<exists>st p i. NeelStack App ''NeelStack'' \<lparr>account = ''851725255821'', region = ''us-east-1''\<rparr>
       = Some [st]
     \<and> instances (tree st) = [(p, i)]
     \<and> user_data i = [nginx_install_script] \<and> length nginx_install_script = 150"
  by (simp add: NeelStack_def App_def lib_defs sanitize_id_def valid_stack_name_def Let_def
        read_defs nginx_install_script_def)

text \<open>
  While the stack is assembled the load balancer's DNS name has no value: the URI the
  program builds from it has no concrete value before the backend supplies one.
\<close>

lemma backend_uri_late_bound:
  "\<exists>st p m. NeelStack App ''NeelStack'' \<lparr>account = ''851725255821'', region = ''us-east-1''\<rparr>
       = Some [st]
     \<and> methods (tree st) = [(p, m)]
     \<and> resolve Map.empty (uri (method_integration m)) = None"
  by (simp add: NeelStack_def App_def lib_defs sanitize_id_def valid_stack_name_def Let_def
        read_defs)



subsection \<open>The end-to-end run\<close>

text \<open>
  Claim C1, as stated, asks for exactly two named results in what is handed to the
  backend. The template of the module-level program has three outputs: the REST API
  declares an \<open>Endpoint\<close> output of its own.
\<close>

theorem two_named_results_counterexample:
  "map_option (map n_outputs) main = Some [3] \<and> map_option (map n_outputs) main \<noteq> Some [2]"
  by (simp add: main_def App_def synth_def synth_stack_def n_outputs_def NeelStack_def lib_defs
        sanitize_id_def valid_stack_name_def Let_def List.map_filter_simps)

text \<open>
  Claim C1, amended. The module-level program, which declares the canonical configuration
  (a public and a private-with-egress tier, both of mask 24; a security group of the
  network that admits TCP port 80 from any IPv4 address; an instance in the private tier;
  an internal load balancer with a listener on port 80 that forwards to a target group on
  that instance with the health check path \<open>/\<close>, port \<open>80\<close>, protocol HTTP, interval
  30 s, timeout 10 s; a VPC link to the load balancer; a method \<open>ANY\<close> integrated over
  that link), runs to the end, passes the validation of the synthesis and hands the
  backend one template. Among its resources there is exactly one network, security group,
  instance, load balancer, listener, target group, VPC link and proxy method. Each
  reference one of them holds is the path of the one construct of the referenced class,
  the instance's tier is a tier of its network, all paths are distinct and every reference
  in the tree resolves. The template has exactly three outputs: \<open>AMI_ID\<close>, the image
  identifier the instance uses in the stack's region, and two that hold the late-bound URL
  of the REST API that carries the method, the API's own \<open>Endpoint\<close> and \<open>ApiEndpoint\<close>.
\<close>

theorem end_to_end_assembly:
  "\<exists>t pv v pg g pi i pn n pl l pt tg pk k pa a pr r pm m ami.
     main = Some [t]
   \<and> vpcs (resources t) = [(pv, v)]
   \<and> map (\<lambda>s. (subnet_type s, cidr_mask s)) (subnet_configuration v)
       = [(PUBLIC, 24), (PRIVATE_WITH_EGRESS, 24)]
   \<and> security_groups (resources t) = [(pg, g)] \<and> sg_vpc g = pv
   \<and> map (\<lambda>r. (rule_peer r, rule_port r)) (ingress_rules g) = [(any_ipv4, tcp 80)]
   \<and> instances (resources t) = [(pi, i)] \<and> inst_vpc i = pv \<and> inst_security_group i = pg
   \<and> sel_subnet_type (vpc_subnets i) = PRIVATE_WITH_EGRESS
   \<and> sel_subnet_type (vpc_subnets i) \<in> set (map subnet_type (subnet_configuration v))
   \<and> load_balancers (resources t) = [(pn, n)] \<and> nlb_vpc n = pv \<and> \<not> internet_facing n
   \<and> listeners (resources t) = [(pl, l)] \<and> listener_lb l = pn \<and> listener_port l = 80
   \<and> default_action l = [pt]
   \<and> target_groups (resources t) = [(pt, tg)] \<and> tg_vpc tg = pv \<and> tg_targets tg = [pi]
   \<and> health_check tg = \<lparr>hc_path = ''/'', hc_port = ''80'', hc_protocol = HTTP,
         hc_interval = seconds 30, hc_timeout = seconds 10\<rparr>
   \<and> vpc_links (resources t) = [(pk, k)] \<and> link_targets k = [pn]
   \<and> rest_apis (resources t) = [(pa, a)]
   \<and> api_resources (resources t) = [(pr, r)] \<and> res_parent r = root pa
   \<and> methods (resources t) = [(pm, m)] \<and> method_resource m = pr \<and> http_method m = ''ANY''
   \<and> vpc_link (options (method_integration m)) = pk
   \<and> uri (method_integration m) = [Lit ''http://'', Tok (DnsName pn)]
   \<and> distinct (map fst (resources t))
   \<and> resolved (resources t)
   \<and> outputs t = [([''AMI_ID''], [Lit ami]), (pa @ [''Endpoint''], [Tok (Url pa)]),
                  ([''ApiEndpoint''], [Tok (Url pa)])]
   \<and> image_id i = ami
   \<and> get_image (machine_image i) (region (template_env t)) = Some ami"
  by (simp add: main_def App_def synth_def synth_stack_def NeelStack_def lib_defs
        sanitize_id_def valid_stack_name_def Let_def read_defs resolved_def resolves_def)

subsection \<open>Ingress rules\<close>




subsection \<open>The health check\<close>

text \<open>
  Claim C9. Whenever the initialiser returns, whatever scope, id and environment it was
  given, the stack it has added holds one target group; its health check has the timeout
  10 s and the interval 30 s, so the timeout is strictly below the interval.
\<close>

theorem health_check_timeout_below_interval:
  "NeelStack scope sid env = Some app \<Longrightarrow>
   \<exists>st p g. app = scope @ [st] \<and> target_groups (tree st) = [(p, g)]
     \<and> hc_timeout (health_check g) = seconds 10 \<and> hc_interval (health_check g) = seconds 30
     \<and> to_seconds (hc_timeout (health_check g)) < to_seconds (hc_interval (health_check g))"
  by (auto simp add: NeelStack_def lib_defs Let_def read_defs split: if_splits option.splits)

text \<open>The theorem at the arguments of the module-level call, where the initialiser returns.\<close>

theorem health_check_timeout_below_interval_witness:
  "\<exists>app st p g.
     NeelStack App ''NeelStack'' \<lparr>account = ''851725255821'', region = ''us-east-1''\<rparr> = Some app
   \<and> app = App @ [st] \<and> target_groups (tree st) = [(p, g)]
   \<and> hc_timeout (health_check g) = seconds 10 \<and> hc_interval (health_check g) = seconds 30
   \<and> to_seconds (hc_timeout (health_check g)) < to_seconds (hc_interval (health_check g))"
proof -
  obtain app where run:
    "NeelStack App ''NeelStack'' \<lparr>account = ''851725255821'', region = ''us-east-1''\<rparr> = Some app"
    using NeelStack_main_runs by blast
  from health_check_timeout_below_interval [OF run] run show ?thesis by blast
qed

subsection \<open>The proxy route\<close>

text \<open>
  Claim C10. Whenever the initialiser returns, the stack it has added holds one API
  resource, with the path part \<open>mynlb\<close>, directly under the root of the one REST API, and
  one method on it. The method matches \<open>ANY\<close>; its integration is an HTTP proxy with the
  method \<open>ANY\<close> over the VPC-link connection, through the stack's one VPC link. The
  integration's URI is the literal \<open>http://\<close> followed by the DNS name of the stack's one
  load balancer: whatever name \<open>d\<close> the backend supplies for it, the URI's value is
  \<open>http://\<close> followed by \<open>d\<close>, which never starts with \<open>https://\<close>.
\<close>

theorem proxy_route_backend_uri:
  "NeelStack scope sid env = Some app \<Longrightarrow>
   \<exists>st pa a pr r pm m pn n.
     app = scope @ [st]
   \<and> rest_apis (tree st) = [(pa, a)]
   \<and> api_resources (tree st) = [(pr, r)] \<and> res_parent r = root pa \<and> path_part r = ''mynlb''
   \<and> methods (tree st) = [(pm, m)] \<and> method_resource m = pr \<and> http_method m = ''ANY''
   \<and> int_type (method_integration m) = HTTP_PROXY
   \<and> integration_http_method (method_integration m) = ''ANY''
   \<and> connection_type (options (method_integration m)) = VPC_LINK
   \<and> map fst (vpc_links (tree st)) = [vpc_link (options (method_integration m))]
   \<and> load_balancers (tree st) = [(pn, n)]
   \<and> uri (method_integration m) = [Lit ''http://'', Tok (DnsName pn)]
   \<and> resolve (b(DnsName pn \<mapsto> d)) (uri (method_integration m)) = Some (''http://'' @ d)
   \<and> \<not> prefix ''https://'' (''http://'' @ d)"
  by (auto simp add: NeelStack_def lib_defs Let_def read_defs split: if_splits option.splits)

text \<open>
  The theorem at the arguments of the module-level call, for a backend that supplies the
  name \<open>nlb.internal\<close> and nothing else.
\<close>

theorem proxy_route_backend_uri_witness:
  "\<exists>app st pa a pr r pm m pn n.
     NeelStack App ''NeelStack'' \<lparr>account = ''851725255821'', region = ''us-east-1''\<rparr> = Some app
   \<and> app = App @ [st]
   \<and> rest_apis (tree st) = [(pa, a)]
   \<and> api_resources (tree st) = [(pr, r)] \<and> res_parent r = root pa \<and> path_part r = ''mynlb''
   \<and> methods (tree st) = [(pm, m)] \<and> method_resource m = pr \<and> http_method m = ''ANY''
   \<and> int_type (method_integration m) = HTTP_PROXY
   \<and> integration_http_method (method_integration m) = ''ANY''
   \<and> connection_type (options (method_integration m)) = VPC_LINK
   \<and> map fst (vpc_links (tree st)) = [vpc_link (options (method_integration m))]
   \<and> load_balancers (tree st) = [(pn, n)]
   \<and> uri (method_integration m) = [Lit ''http://'', Tok (DnsName pn)]
   \<and> resolve (Map.empty(DnsName pn \<mapsto> ''nlb.internal'')) (uri (method_integration m))
       = Some (''http://'' @ ''nlb.internal'')
   \<and> \<not> prefix ''https://'' (''http://'' @ ''nlb.internal'')"
proof -
  obtain app where run:
    "NeelStack App ''NeelStack'' \<lparr>account = ''851725255821'', region = ''us-east-1''\<rparr> = Some app"
    using NeelStack_main_runs by blast
  from proxy_route_backend_uri [OF run, of Map.empty "''nlb.internal''"] run
  show ?thesis by (intro exI [of _ app]) simp
qed

end
